theory Spec2Isabelle
  imports Main
begin

section \<open>MDSM: sessions, clients and the encrypted cookie\<close>

text \<open>
  A shallow embedding of \<^verbatim>\<open>mdsm.js\<close> and \<^verbatim>\<open>Classes/Session.js\<close>.
  JavaScript strings are modelled as \<^typ>\<open>string\<close>, indices as \<^typ>\<open>int\<close>,
  exceptions as values of a sum type, objects that are shared by reference (the
  \<^verbatim>\<open>Session\<close> instances) as cells of an explicit store.
\<close>

subsection \<open>Strings: \<^verbatim>\<open>charAt\<close>, \<^verbatim>\<open>substring\<close>, \<^verbatim>\<open>trimURL\<close>\<close>

definition charAt :: "string \<Rightarrow> int \<Rightarrow> string" where
  \<comment> \<open>\<^verbatim>\<open>s.charAt(i)\<close>: the one-character string at \<open>i\<close>, the empty string out of range.\<close>
  "charAt s i = (if 0 \<le> i \<and> i < int (length s) then [s ! nat i] else [])"

definition substring :: "string \<Rightarrow> int \<Rightarrow> int \<Rightarrow> string" where
  \<comment> \<open>\<^verbatim>\<open>s.substring(a, b)\<close>: both indices clamped to \<open>0..length\<close>, swapped when \<open>a > b\<close>.\<close>
  "substring s a b =
     (let n = int (length s);
          a' = max 0 (min a n);
          b' = max 0 (min b n);
          lo = min a' b';
          hi = max a' b'
      in take (nat (hi - lo)) (drop (nat lo) s))"

definition trimURL :: "string \<Rightarrow> string" where
  \<comment> \<open>\<^verbatim>\<open>trimURL\<close> of mdsm.js.\<close>
  "trimURL url =
     (let trimmedUrl = url;
          trimmedUrl = (if charAt trimmedUrl 0 = ''/''
                        then substring trimmedUrl 1 (int (length trimmedUrl))
                        else trimmedUrl);
          trimmedUrl = (if charAt trimmedUrl (int (length trimmedUrl) - 1) = ''/''
                        then substring trimmedUrl 0 (int (length trimmedUrl) - 1)
                        else trimmedUrl)
      in trimmedUrl)"

definition Session_trimURL :: "string \<Rightarrow> string" where
  \<comment> \<open>The method \<^verbatim>\<open>trimURL\<close> of class Session: the same text as the function of mdsm.js.\<close>
  "Session_trimURL url =
     (let trimmedUrl = url;
          trimmedUrl = (if charAt trimmedUrl 0 = ''/''
                        then substring trimmedUrl 1 (int (length trimmedUrl))
                        else trimmedUrl);
          trimmedUrl = (if charAt trimmedUrl (int (length trimmedUrl) - 1) = ''/''
                        then substring trimmedUrl 0 (int (length trimmedUrl) - 1)
                        else trimmedUrl)
      in trimmedUrl)"

definition starts_with_slash :: "string \<Rightarrow> bool" where
  "starts_with_slash s = (case s of [] \<Rightarrow> False | c # _ \<Rightarrow> c = CHR ''/'')"

definition ends_with_slash :: "string \<Rightarrow> bool" where
  "ends_with_slash s = (s \<noteq> [] \<and> last s = CHR ''/'')"

definition strip_leading :: "string \<Rightarrow> string" where
  "strip_leading s = (if starts_with_slash s then tl s else s)"

definition strip_trailing :: "string \<Rightarrow> string" where
  "strip_trailing s = (if ends_with_slash s then butlast s else s)"

subsection \<open>JavaScript values, numbers and exceptions\<close>

datatype js_error =
    TypeError        \<comment> \<open>a property read on \<^verbatim>\<open>undefined\<close> or \<^verbatim>\<open>null\<close>\<close>
  | ReferenceError   \<comment> \<open>an identifier that is declared nowhere\<close>
  | SyntaxError      \<comment> \<open>\<^verbatim>\<open>JSON.parse\<close> on a text that is not JSON\<close>
  | DecipherError    \<comment> \<open>\<^verbatim>\<open>decipher.update\<close> or \<^verbatim>\<open>decipher.final\<close> rejecting its input\<close>

datatype jsval =
    JUndefined
  | JNull
  | JBool bool
  | JNumber int
  | JString string
  | JArray "jsval list"
  | JObject "(string \<times> jsval) list"

text \<open>
  Timestamps and durations are whole milliseconds; the only other number the code can
  produce from them is \<^verbatim>\<open>NaN\<close>, when \<^verbatim>\<open>undefined\<close> enters an addition.
\<close>

datatype jsnum = Num int | NaN

fun truthy :: "jsval \<Rightarrow> bool" where
  "truthy JUndefined = False"
| "truthy JNull = False"
| "truthy (JBool b) = b"
| "truthy (JNumber n) = (n \<noteq> 0)"
| "truthy (JString s) = (s \<noteq> [])"
| "truthy (JArray _) = True"
| "truthy (JObject _) = True"

definition truthy_object :: "'a \<Rightarrow> bool" where
  \<comment> \<open>A reference to an object converts to \<^verbatim>\<open>true\<close>, whatever the object holds.\<close>
  "truthy_object obj = True"

fun get_prop :: "jsval \<Rightarrow> string \<Rightarrow> js_error + jsval" where
  \<comment> \<open>\<^verbatim>\<open>v.name\<close> for the names \<^verbatim>\<open>sessionID\<close> and \<^verbatim>\<open>clientID\<close>, which no primitive
      value, array or prototype has.\<close>
  "get_prop JUndefined name = Inl TypeError"
| "get_prop JNull name = Inl TypeError"
| "get_prop (JObject kvs) name = (case map_of kvs name of None \<Rightarrow> Inr JUndefined | Some v \<Rightarrow> Inr v)"
| "get_prop v name = Inr JUndefined"

definition strict_eq_string :: "string \<Rightarrow> jsval \<Rightarrow> bool" where
  \<comment> \<open>\<^verbatim>\<open>s === v\<close> for a string \<open>s\<close>.\<close>
  "strict_eq_string s v = (case v of JString t \<Rightarrow> s = t | _ \<Rightarrow> False)"

definition to_number :: "int option \<Rightarrow> jsnum" where
  \<comment> \<open>A number, or \<^verbatim>\<open>undefined\<close> (\<open>None\<close>), as an operand of arithmetic.\<close>
  "to_number v = (case v of None \<Rightarrow> NaN | Some n \<Rightarrow> Num n)"

fun js_plus :: "jsnum \<Rightarrow> jsnum \<Rightarrow> jsnum" where
  "js_plus (Num a) (Num b) = Num (a + b)"
| "js_plus _ _ = NaN"

fun js_minus :: "jsnum \<Rightarrow> jsnum \<Rightarrow> jsnum" where
  "js_minus (Num a) (Num b) = Num (a - b)"
| "js_minus _ _ = NaN"

fun js_le :: "jsnum \<Rightarrow> jsnum \<Rightarrow> bool" where
  "js_le (Num a) (Num b) = (a \<le> b)"
| "js_le _ _ = False"

fun filterE :: "('a \<Rightarrow> js_error + bool) \<Rightarrow> 'a list \<Rightarrow> js_error + 'a list" where
  \<comment> \<open>\<^verbatim>\<open>xs.filter(p)\<close> with a callback that may throw: the first exception ends the loop.\<close>
  "filterE p [] = Inr []"
| "filterE p (x # xs) =
     (case p x of
        Inl e \<Rightarrow> Inl e
      | Inr b \<Rightarrow> (case filterE p xs of
                    Inl e \<Rightarrow> Inl e
                  | Inr ys \<Rightarrow> Inr (if b then x # ys else ys)))"

definition first_elem :: "'a list \<Rightarrow> 'a option" where
  \<comment> \<open>\<^verbatim>\<open>xs[0]\<close>; \<open>None\<close> is \<^verbatim>\<open>undefined\<close>.\<close>
  "first_elem xs = (case xs of [] \<Rightarrow> None | x # _ \<Rightarrow> Some x)"

fun indexOf :: "'a list \<Rightarrow> 'a \<Rightarrow> int" where
  "indexOf [] y = -1"
| "indexOf (x # xs) y = (if x = y then 0 else (let i = indexOf xs y in if i < 0 then -1 else i + 1))"

definition splice1 :: "'a list \<Rightarrow> int \<Rightarrow> 'a list" where
  \<comment> \<open>\<^verbatim>\<open>xs.splice(i, 1)\<close>: a negative index counts from the end.\<close>
  "splice1 xs i =
     (let n = int (length xs);
          start = (if i < 0 then max 0 (n + i) else min i n)
      in take (nat start) xs @ drop (nat start + 1) xs)"

subsection \<open>The Node.js library\<close>

text \<open>
  What \<^verbatim>\<open>crypto\<close> and \<^verbatim>\<open>JSON\<close> compute is not part of the repository; it is a
  parameter of the model. \<^verbatim>\<open>crypto.createCipher('aes256', secret)\<close> takes no
  initialisation vector and no salt: the key and the vector are derived from the password
  alone, so \<open>update\<close> followed by \<open>final\<close> is a function of the password and the
  plaintext. The \<open>n\<close>-th call of \<^verbatim>\<open>crypto.randomFillSync\<close> in the process returns
  \<open>randomFillSync n size encoding\<close>.
\<close>

record platform =
  aes256_encrypt :: "string \<Rightarrow> string \<Rightarrow> string"
  aes256_decrypt :: "string \<Rightarrow> string \<Rightarrow> js_error + string"
  JSON_parse :: "string \<Rightarrow> js_error + jsval"
  JSON_stringify :: "jsval \<Rightarrow> string"
  randomFillSync :: "nat \<Rightarrow> nat \<Rightarrow> string \<Rightarrow> string"

definition setTimeout_delay :: "jsnum \<Rightarrow> int" where
  \<comment> \<open>Node's timers: a delay outside \<open>1..2^31-1\<close>, or \<^verbatim>\<open>NaN\<close>, is set to 1.\<close>
  "setTimeout_delay d =
     (case d of NaN \<Rightarrow> 1 | Num n \<Rightarrow> if 1 \<le> n \<and> n \<le> 2147483647 then n else 1)"

subsection \<open>Requests, endpoints, clients, sessions\<close>

record request =
  req_url :: string
  req_cookie :: "string option"

text \<open>
  The response object of Node's \<^verbatim>\<open>http\<close>: the status code, what has been written, and
  whether the response has been ended. \<^verbatim>\<open>res.end(data)\<close> writes the data and ends the
  response; on a response that is ended already it writes nothing and does not throw.
\<close>

record response =
  res_statusCode :: int
  res_body :: string
  res_finished :: bool

definition res_end :: "string \<Rightarrow> response \<Rightarrow> response" where
  "res_end data res =
     (if res_finished res then res
      else res\<lparr>res_body := res_body res @ data, res_finished := True\<rparr>)"

record handler_call =
  arg_sessionData :: jsval
  arg_clientData :: jsval
  arg_request :: request
  arg_response :: response
  arg_mdsmCookie :: string

text \<open>
  A handler is a callback of the embedding application. It is given the response and may
  write to it and end it. The model keeps of a call the response as the handler leaves
  it, and whether the call returns (\<open>None\<close>) or throws (\<open>Some e\<close>).
\<close>

record endpoint =
  url :: string
  allowedClassTypes :: "string list"
  handler :: "handler_call \<Rightarrow> response \<times> js_error option"

text \<open>
  Modelled from the spec: the class \<^verbatim>\<open>Client\<close> (\<^verbatim>\<open>Classes/Client.js\<close>), of which
  \<^verbatim>\<open>Session.js\<close> uses the constructor and the fields \<^verbatim>\<open>clientID\<close>,
  \<^verbatim>\<open>clientClass\<close>, \<^verbatim>\<open>clientData\<close>: an opaque identifier, a class tag used for
  authorisation, an opaque payload; the constructor stores the three as given.
\<close>

record client =
  clientID :: string
  clientClass :: string
  clientData :: jsval

record session =
  sessionID :: string
  expiryDate :: jsnum
  clientList :: "client list"
  validEndpoints :: "endpoint list"
  sessionData :: jsval

text \<open>The calls that \<^verbatim>\<open>Session.processRequest\<close> itself makes, in order.\<close>

datatype event =
    Handler_invoked endpoint handler_call
  | Res_end string

fun is_handler_invocation :: "event \<Rightarrow> bool" where
  "is_handler_invocation (Handler_invoked _ _) = True"
| "is_handler_invocation (Res_end _) = False"

subsection \<open>Class \<^verbatim>\<open>Session\<close>\<close>

definition Session_addClient ::
  "platform \<Rightarrow> nat \<Rightarrow> session \<Rightarrow> string \<Rightarrow> jsval \<Rightarrow> string \<times> session" where
  \<comment> \<open>\<open>n\<close> counts the random draws made so far; the caller counts this one.\<close>
  "Session_addClient P n this cClass cData =
     (let newClient = \<lparr>clientID = randomFillSync P n 32 ''hex'',
                       clientClass = cClass,
                       clientData = cData\<rparr>;
          this' = this\<lparr>clientList := clientList this @ [newClient]\<rparr>;
          clientCookieObj = JObject [(''sessionID'', JString (sessionID this')),
                                     (''clientID'', JString (clientID newClient))]
      in (JSON_stringify P clientCookieObj, this'))"

definition Session_removeClient :: "session \<Rightarrow> string \<Rightarrow> js_error + session" where
  \<comment> \<open>The branch names \<^verbatim>\<open>clientList\<close>, not \<^verbatim>\<open>this.clientList\<close>: no such variable
      is declared, and reading it throws before anything is removed.\<close>
  "Session_removeClient this cid =
     (let matchingClients = filter (\<lambda>c. clientID c = cid) (clientList this)
      in if length matchingClients > 0 then Inl ReferenceError else Inr this)"

definition response_body :: "session \<Rightarrow> string \<Rightarrow> string" where
  "response_body this mdsmCookie =
     ''Your session is '' @ sessionID this @ ''. Your MDSM cookie is '' @ mdsmCookie"

definition matches_clientID :: "platform \<Rightarrow> string \<Rightarrow> client \<Rightarrow> js_error + bool" where
  \<comment> \<open>\<^verbatim>\<open>c.clientID === JSON.parse(mdsmCookie).clientID\<close>\<close>
  "matches_clientID P mdsmCookie c =
     (case JSON_parse P mdsmCookie of
        Inl e \<Rightarrow> Inl e
      | Inr v \<Rightarrow> (case get_prop v ''clientID'' of
                    Inl e \<Rightarrow> Inl e
                  | Inr x \<Rightarrow> Inr (strict_eq_string (clientID c) x)))"

definition resolve_client :: "platform \<Rightarrow> session \<Rightarrow> string \<Rightarrow> js_error + client option" where
  \<comment> \<open>\<^verbatim>\<open>let client = this.clientList.filter(...)[0]\<close>; \<open>Inr None\<close> is \<^verbatim>\<open>undefined\<close>.\<close>
  "resolve_client P this mdsmCookie =
     (case filterE (matches_clientID P mdsmCookie) (clientList this) of
        Inl e \<Rightarrow> Inl e
      | Inr cs \<Rightarrow> Inr (first_elem cs))"

definition resolve_endpoint :: "session \<Rightarrow> request \<Rightarrow> endpoint option" where
  \<comment> \<open>\<^verbatim>\<open>let endpoint = this.validEndpoints.filter(...)[0]\<close>\<close>
  "resolve_endpoint this req =
     first_elem (filter (\<lambda>ep. url ep = Session_trimURL (req_url req)) (validEndpoints this))"

definition handler_args ::
  "session \<Rightarrow> client \<Rightarrow> request \<Rightarrow> response \<Rightarrow> string \<Rightarrow> handler_call" where
  \<comment> \<open>The arguments \<^verbatim>\<open>(this.sessionData, client.clientData, req, res, mdsmCookie)\<close>.\<close>
  "handler_args this c req res mdsmCookie =
     \<lparr>arg_sessionData = sessionData this, arg_clientData = clientData c,
      arg_request = req, arg_response = res, arg_mdsmCookie = mdsmCookie\<rparr>"

definition Session_processRequest ::
  "platform \<Rightarrow> session \<Rightarrow> request \<Rightarrow> response \<Rightarrow> string
     \<Rightarrow> event list \<times> response \<times> js_error option" where
  \<comment> \<open>The calls made, the response as the method leaves it, and the exception that ended
      the method, if one did. The condition reads \<^verbatim>\<open>endpoint.allowedClassTypes\<close> before
      \<^verbatim>\<open>client.clientClass\<close>; either read throws on \<^verbatim>\<open>undefined\<close>. The parameter
      \<^verbatim>\<open>next\<close> is never called.\<close>
  "Session_processRequest P this req res mdsmCookie =
     (case resolve_client P this mdsmCookie of
        Inl e \<Rightarrow> ([], res, Some e)
      | Inr client \<Rightarrow>
          (case resolve_endpoint this req of
             None \<Rightarrow> ([], res, Some TypeError)
           | Some ep \<Rightarrow>
               (case client of
                  None \<Rightarrow> ([], res, Some TypeError)
                | Some c \<Rightarrow>
                    if clientClass c \<in> set (allowedClassTypes ep)
                    then (let call = handler_args this c req res mdsmCookie
                          in case handler ep call of
                               (res', Some e) \<Rightarrow> ([Handler_invoked ep call], res', Some e)
                             | (res', None) \<Rightarrow>
                                 ([Handler_invoked ep call,
                                   Res_end (response_body this mdsmCookie)],
                                  res_end (response_body this mdsmCookie) res', None))
                    else ([Res_end (response_body this mdsmCookie)],
                          res_end (response_body this mdsmCookie) res, None))))"

definition Session_extendSessionLife :: "session \<Rightarrow> int \<Rightarrow> session" where
  "Session_extendSessionLife this additionalLifeMs =
     this\<lparr>expiryDate := js_plus (expiryDate this) (Num additionalLifeMs)\<rparr>"

definition Session_attemptSelfDestruct :: "session \<Rightarrow> int \<Rightarrow> bool" where
  \<comment> \<open>The second argument is \<^verbatim>\<open>Date.now()\<close>. \<^verbatim>\<open>delete this\<close> changes nothing.\<close>
  "Session_attemptSelfDestruct this date_now =
     (let true_ttl = js_minus (expiryDate this) (Num date_now)
      in if js_le true_ttl (Num 0) then True else False)"

subsection \<open>Module \<^verbatim>\<open>mdsm\<close>\<close>

text \<open>
  The state of the module: its configuration, the store of Session objects (a reference
  is an index of \<open>heap\<close>; an object is never freed), the array \<^verbatim>\<open>sessions\<close> of
  references, the array \<^verbatim>\<open>endpoints\<close>, the number of random draws made, the clock and
  the pending timers (time due, session to expire).
\<close>

record mdsm =
  mode :: "string option"
  secret :: string
  heap :: "session list"
  sessions :: "nat list"
  endpoints :: "endpoint list"
  draws :: nat
  now :: int
  timers :: "(int \<times> nat) list"

definition mdsm_module :: "platform \<Rightarrow> int \<Rightarrow> mdsm" where
  \<comment> \<open>The module after loading, at time \<open>t\<close>: the secret is the first random draw.\<close>
  "mdsm_module P t =
     \<lparr>mode = None, secret = randomFillSync P 0 256 ''base64'', heap = [], sessions = [],
      endpoints = [], draws = 1, now = t, timers = []\<rparr>"

record initConfig =
  ic_mode :: string
  ic_endpoints :: "endpoint list"

definition init :: "initConfig \<Rightarrow> mdsm \<Rightarrow> mdsm" where
  \<comment> \<open>Opening the listener of Port mode is left out.\<close>
  "init initConfig st =
     (let st = (if ic_mode initConfig = ''Port'' then st\<lparr>mode := Some ''Port''\<rparr>
                else if ic_mode initConfig = ''Middleware'' then st\<lparr>mode := Some ''Middleware''\<rparr>
                else st)
      in st\<lparr>endpoints := map (\<lambda>endpoint. endpoint\<lparr>url := trimURL (url endpoint)\<rparr>)
                              (ic_endpoints initConfig)\<rparr>)"

definition encrypt :: "platform \<Rightarrow> mdsm \<Rightarrow> string \<Rightarrow> string" where
  "encrypt P st plaintext = aes256_encrypt P (secret st) plaintext"

definition decrypt :: "platform \<Rightarrow> mdsm \<Rightarrow> string \<Rightarrow> js_error + string" where
  \<comment> \<open>The \<^verbatim>\<open>catch\<close> clause throws what it caught.\<close>
  "decrypt P st ciphertext =
     (case aes256_decrypt P (secret st) ciphertext of
        Inl error \<Rightarrow> Inl error
      | Inr decrypted \<Rightarrow> Inr decrypted)"

record session_match =
  mdsmCookie :: string
  session :: nat

definition matches_sessionID :: "mdsm \<Rightarrow> jsval \<Rightarrow> nat \<Rightarrow> js_error + bool" where
  \<comment> \<open>\<^verbatim>\<open>s.sessionID === sessionDataObject.sessionID\<close>\<close>
  "matches_sessionID st sessionDataObject s =
     (case get_prop sessionDataObject ''sessionID'' of
        Inl e \<Rightarrow> Inl e
      | Inr x \<Rightarrow> Inr (strict_eq_string (sessionID (heap st ! s)) x))"

definition findSession_try :: "platform \<Rightarrow> mdsm \<Rightarrow> string \<Rightarrow> js_error + session_match option" where
  \<comment> \<open>The body of the \<^verbatim>\<open>try\<close> block.\<close>
  "findSession_try P st sessionCookie =
     (case decrypt P st sessionCookie of
        Inl e \<Rightarrow> Inl e
      | Inr unencrypted \<Rightarrow>
          (case JSON_parse P unencrypted of
             Inl e \<Rightarrow> Inl e
           | Inr sessionDataObject \<Rightarrow>
               (case filterE (matches_sessionID st sessionDataObject) (sessions st) of
                  Inl e \<Rightarrow> Inl e
                | Inr filteredSessionList \<Rightarrow>
                    (case filteredSessionList of
                       s # _ \<Rightarrow> Inr (Some \<lparr>mdsmCookie = unencrypted, session = s\<rparr>)
                     | [] \<Rightarrow> Inr None))))"

definition findSession :: "platform \<Rightarrow> mdsm \<Rightarrow> string \<Rightarrow> js_error + session_match option" where
  \<comment> \<open>\<open>Inl\<close> would be an exception reaching the caller; \<open>Inr None\<close> is \<^verbatim>\<open>null\<close>.
      The \<^verbatim>\<open>catch\<close> clause logs and returns \<^verbatim>\<open>null\<close>.\<close>
  "findSession P st sessionCookie =
     (case findSession_try P st sessionCookie of
        Inl error \<Rightarrow> Inr None
      | Inr result \<Rightarrow> Inr result)"

text \<open>
  The configuration object of \<^verbatim>\<open>createSession\<close>: an identifier or none, a number of
  milliseconds or none, any value as data.
\<close>

record newSessionInfo =
  new_sessionID :: "string option"
  new_timeToLive :: "int option"
  new_sessionData :: jsval

definition setTimeout_expire :: "jsnum \<Rightarrow> nat \<Rightarrow> mdsm \<Rightarrow> mdsm" where
  \<comment> \<open>\<^verbatim>\<open>setTimeout(()=>{expireSession(s)}, delay)\<close>\<close>
  "setTimeout_expire delay s st = st\<lparr>timers := timers st @ [(now st + setTimeout_delay delay, s)]\<rparr>"

definition createSession :: "platform \<Rightarrow> newSessionInfo \<Rightarrow> mdsm \<Rightarrow> nat \<times> mdsm" where
  \<comment> \<open>Returns the reference to the new Session. An absent or empty \<^verbatim>\<open>sessionID\<close> is
      falsy. The default of the time to live tests the object, not its field.\<close>
  "createSession P newSessionInfo st =
     (let (sid, st) =
            (case new_sessionID newSessionInfo of
               None \<Rightarrow> (randomFillSync P (draws st) 32 ''hex'', st\<lparr>draws := Suc (draws st)\<rparr>)
             | Some given \<Rightarrow>
                 if given = [] then (randomFillSync P (draws st) 32 ''hex'', st\<lparr>draws := Suc (draws st)\<rparr>)
                 else (given, st));
          timeToLive = (if \<not> truthy_object newSessionInfo then Some 0
                        else new_timeToLive newSessionInfo);
          sData = (if \<not> truthy (new_sessionData newSessionInfo) then JNull
                   else new_sessionData newSessionInfo);
          newSesh = \<lparr>sessionID = sid,
                     expiryDate = js_plus (Num (now st)) (to_number timeToLive),
                     clientList = [],
                     validEndpoints = endpoints st,
                     sessionData = sData\<rparr>;
          ref = length (heap st);
          st = st\<lparr>heap := heap st @ [newSesh]\<rparr>;
          st = st\<lparr>sessions := sessions st @ [ref]\<rparr>;
          st = setTimeout_expire (to_number timeToLive) ref st
      in (ref, st))"

definition expireSession :: "nat \<Rightarrow> mdsm \<Rightarrow> mdsm" where
  "expireSession s st =
     (let wasDestroyed = Session_attemptSelfDestruct (heap st ! s) (now st)
      in if wasDestroyed
         then st\<lparr>sessions := splice1 (sessions st) (indexOf (sessions st) s)\<rparr>
         else setTimeout_expire (js_minus (expiryDate (heap st ! s)) (Num (now st))) s st)"

definition renewSession :: "string \<Rightarrow> int \<Rightarrow> mdsm \<Rightarrow> js_error + mdsm" where
  \<comment> \<open>\<^verbatim>\<open>filter(...)[0]\<close> is \<^verbatim>\<open>undefined\<close> when nothing matches, and the method call
      on it throws.\<close>
  "renewSession sid extraTimeInMs st =
     (let found = first_elem (filter (\<lambda>s. sessionID (heap st ! s) = sid) (sessions st))
      in case found of
           None \<Rightarrow> Inl TypeError
         | Some s \<Rightarrow>
             Inr (st\<lparr>heap := (heap st)[s := Session_extendSessionLife (heap st ! s) extraTimeInMs]\<rparr>))"

datatype session_arg =
    Session_object nat   \<comment> \<open>\<^verbatim>\<open>typeof newClientInfo.session === 'object'\<close>\<close>
  | Session_id string

record newClientInfo =
  new_session :: session_arg
  new_clientClass :: string
  new_clientData :: jsval

definition addClient :: "platform \<Rightarrow> newClientInfo \<Rightarrow> mdsm \<Rightarrow> string option \<times> mdsm" where
  \<comment> \<open>\<open>None\<close> is \<^verbatim>\<open>null\<close>. The console output is left out, and so is a
      \<^verbatim>\<open>session\<close> field that is \<^verbatim>\<open>null\<close>.\<close>
  "addClient P newClientInfo st =
     (let found = (case new_session newClientInfo of
                     Session_id sid \<Rightarrow>
                       first_elem (filter (\<lambda>s. sessionID (heap st ! s) = sid) (sessions st))
                   | Session_object s \<Rightarrow> Some s)
      in case found of
           None \<Rightarrow> (None, st)
         | Some s \<Rightarrow>
             (let (clientCookie, this') =
                    Session_addClient P (draws st) (heap st ! s)
                      (new_clientClass newClientInfo) (new_clientData newClientInfo);
                  st = st\<lparr>heap := (heap st)[s := this'], draws := Suc (draws st)\<rparr>
              in (Some (encrypt P st clientCookie), st)))"

text \<open>The clock and the timers: time passes, and a timer that is due runs its callback.\<close>

definition tick :: "nat \<Rightarrow> mdsm \<Rightarrow> mdsm" where
  "tick ms st = st\<lparr>now := now st + int ms\<rparr>"

definition fire_timer :: "nat \<Rightarrow> mdsm \<Rightarrow> mdsm" where
  "fire_timer i st =
     (if i < length (timers st) \<and> fst (timers st ! i) \<le> now st
      then expireSession (snd (timers st ! i))
             (st\<lparr>timers := take i (timers st) @ drop (Suc i) (timers st)\<rparr>)
      else st)"

text \<open>A process is the module after loading and what is done to it, call by call.\<close>

datatype api_call =
    Call_init initConfig
  | Call_createSession newSessionInfo
  | Call_addClient newClientInfo
  | Call_renewSession string int
  | Method_addClient nat string jsval        \<comment> \<open>\<^verbatim>\<open>s.addClient({clientClass, clientData})\<close>\<close>
  | Method_removeClient nat string           \<comment> \<open>\<^verbatim>\<open>s.removeClient(clientID)\<close>\<close>
  | Method_extendSessionLife nat int         \<comment> \<open>\<^verbatim>\<open>s.extendSessionLife(ms)\<close>\<close>
  | Timer_fires nat
  | Time_passes nat

text \<open>
  A method is called on a Session that \<^verbatim>\<open>createSession\<close> returned, so its reference is
  to an object of the store. A call that throws leaves the state as it was.
\<close>

fun step :: "platform \<Rightarrow> api_call \<Rightarrow> mdsm \<Rightarrow> mdsm" where
  "step P (Call_init c) st = init c st"
| "step P (Call_createSession i) st = snd (createSession P i st)"
| "step P (Call_addClient i) st = snd (addClient P i st)"
| "step P (Call_renewSession sid ms) st = (case renewSession sid ms st of Inl e \<Rightarrow> st | Inr st' \<Rightarrow> st')"
| "step P (Method_addClient s cClass cData) st =
     (if s < length (heap st)
      then st\<lparr>heap := (heap st)[s := snd (Session_addClient P (draws st) (heap st ! s) cClass cData)],
              draws := Suc (draws st)\<rparr>
      else st)"
| "step P (Method_removeClient s cid) st =
     (if s < length (heap st)
      then (case Session_removeClient (heap st ! s) cid of
              Inl e \<Rightarrow> st
            | Inr this' \<Rightarrow> st\<lparr>heap := (heap st)[s := this']\<rparr>)
      else st)"
| "step P (Method_extendSessionLife s ms) st =
     (if s < length (heap st)
      then st\<lparr>heap := (heap st)[s := Session_extendSessionLife (heap st ! s) ms]\<rparr>
      else st)"
| "step P (Timer_fires i) st = fire_timer i st"
| "step P (Time_passes ms) st = tick ms st"

fun run :: "platform \<Rightarrow> api_call list \<Rightarrow> mdsm \<Rightarrow> mdsm" where
  "run P [] st = st"
| "run P (c # cs) st = run P cs (step P c st)"

subsection \<open>A small platform to run the model on\<close>

text \<open>
  Stand-ins for the library, used where a statement is evaluated on a concrete input:
  a cipher that prefixes the key, a two-field text format, and draws that differ.
\<close>

definition toy_decrypt :: "string \<Rightarrow> string \<Rightarrow> js_error + string" where
  "toy_decrypt k c = (if take (length k) c = k then Inr (drop (length k) c) else Inl DecipherError)"

definition toy_stringify :: "jsval \<Rightarrow> string" where
  "toy_stringify v =
     (case v of
        JObject [(k1, JString a), (k2, JString b)] \<Rightarrow> a @ '':'' @ b
      | _ \<Rightarrow> ''null'')"

definition toy_parse :: "string \<Rightarrow> js_error + jsval" where
  "toy_parse s =
     (if CHR '':'' \<in> set s
      then Inr (JObject [(''sessionID'', JString (takeWhile (\<lambda>c. c \<noteq> CHR '':'') s)),
                         (''clientID'', JString (tl (dropWhile (\<lambda>c. c \<noteq> CHR '':'') s)))])
      else if s = ''null'' then Inr JNull
      else Inl SyntaxError)"

definition toy :: platform where
  "toy = \<lparr>aes256_encrypt = (\<lambda>k p. k @ p),
          aes256_decrypt = toy_decrypt,
          JSON_parse = toy_parse,
          JSON_stringify = toy_stringify,
          randomFillSync = (\<lambda>n size enc. replicate (Suc n) (CHR ''a''))\<rparr>"

definition noop_handler :: "handler_call \<Rightarrow> response \<times> js_error option" where
  \<comment> \<open>The handlers of test.js log to the console and return.\<close>
  "noop_handler call = (arg_response call, None)"

definition throwing_handler :: "handler_call \<Rightarrow> response \<times> js_error option" where
  \<comment> \<open>A handler that throws before it touches the response.\<close>
  "throwing_handler call = (arg_response call, Some TypeError)"

definition replying_handler :: "handler_call \<Rightarrow> response \<times> js_error option" where
  \<comment> \<open>A handler that answers the request itself.\<close>
  "replying_handler call = (res_end ''done'' (arg_response call), None)"

definition new_response :: response where
  \<comment> \<open>The response as the server hands it over.\<close>
  "new_response = \<lparr>res_statusCode = 200, res_body = [], res_finished = False\<rparr>"

definition test_endpoints :: "endpoint list" where
  \<comment> \<open>The two endpoints of test.js.\<close>
  "test_endpoints =
     [\<lparr>url = ''/api/doSomething1/'', allowedClassTypes = [''class_A''], handler = noop_handler\<rparr>,
      \<lparr>url = ''/api/doSomething2/'', allowedClassTypes = [''class_B''], handler = noop_handler\<rparr>]"

definition example_session :: session where
  \<comment> \<open>The session of test.js once its client is added, with fixed identifiers.\<close>
  "example_session =
     \<lparr>sessionID = ''s1'', expiryDate = Num 10000,
      clientList = [\<lparr>clientID = ''c1'', clientClass = ''class_A'',
                     clientData = JObject [(''foo'', JString ''bar'')]\<rparr>],
      validEndpoints =
        [\<lparr>url = ''api/doSomething1'', allowedClassTypes = [''class_A''], handler = noop_handler\<rparr>,
         \<lparr>url = ''api/doSomething2'', allowedClassTypes = [''class_B''], handler = noop_handler\<rparr>],
      sessionData = JObject [(''bar'', JString ''baz'')]\<rparr>"

definition throwing_session :: session where
  \<comment> \<open>The same session, with handlers that throw or answer themselves.\<close>
  "throwing_session =
     example_session\<lparr>validEndpoints :=
       [\<lparr>url = ''api/doSomething1'', allowedClassTypes = [''class_A''], handler = throwing_handler\<rparr>,
        \<lparr>url = ''api/doSomething2'', allowedClassTypes = [''class_A''], handler = replying_handler\<rparr>]\<rparr>"

definition example_request :: "string \<Rightarrow> request" where
  "example_request u = \<lparr>req_url = u, req_cookie = None\<rparr>"

definition test_init :: mdsm where
  \<comment> \<open>\<^verbatim>\<open>mdsm.init\<close> as test.js calls it.\<close>
  "test_init = init \<lparr>ic_mode = ''Middleware'', ic_endpoints = test_endpoints\<rparr> (mdsm_module toy 0)"

definition test_session_info :: newSessionInfo where
  "test_session_info = \<lparr>new_sessionID = None, new_timeToLive = Some 10000,
      new_sessionData = JObject [(''bar'', JString ''baz'')]\<rparr>"

definition test_client_info :: "nat \<Rightarrow> newClientInfo" where
  "test_client_info s = \<lparr>new_session = Session_object s, new_clientClass = ''class_A'',
      new_clientData = JObject [(''foo'', JString ''bar'')]\<rparr>"

definition test_created :: "nat \<times> mdsm" where
  "test_created = createSession toy test_session_info test_init"

definition test_state :: mdsm where
  "test_state = snd (addClient toy (test_client_info (fst test_created)) (snd test_created))"


definition no_ttl_info :: newSessionInfo where
  \<comment> \<open>A configuration object without \<^verbatim>\<open>timeToLive\<close>.\<close>
  "no_ttl_info = \<lparr>new_sessionID = Some ''s1'', new_timeToLive = None, new_sessionData = JNull\<rparr>"

definition dup_info :: newSessionInfo where
  "dup_info = \<lparr>new_sessionID = Some ''dup'', new_timeToLive = Some 10000, new_sessionData = JNull\<rparr>"

definition dup_first :: "nat \<times> mdsm" where
  "dup_first = createSession toy dup_info test_init"

definition dup_second :: "nat \<times> mdsm" where
  "dup_second = createSession toy dup_info (snd dup_first)"

definition dup_added :: "string option \<times> mdsm" where
  "dup_added = addClient toy (test_client_info (fst dup_second)) (snd dup_second)"

section \<open>Properties\<close>

subsection \<open>URL normalisation\<close>

lemma charAt_0: "(charAt s 0 = ''/'') = starts_with_slash s"
  by (cases s) (auto simp: charAt_def starts_with_slash_def)

lemma charAt_last: "(charAt s (int (length s) - 1) = ''/'') = ends_with_slash s"
proof (cases "s = []")
  case True
  then show ?thesis by (simp add: charAt_def ends_with_slash_def)
next
  case False
  then have "nat (int (length s) - 1) = length s - 1" by simp
  with False show ?thesis
    by (auto simp: charAt_def ends_with_slash_def last_conv_nth)
qed

lemma substring_tl: "substring s 1 (int (length s)) = tl s"
  by (cases s) (auto simp: substring_def Let_def min_def max_def drop_Suc)

lemma substring_butlast: "substring s 0 (int (length s) - 1) = butlast s"
proof (cases "s = []")
  case True
  then show ?thesis by (simp add: substring_def)
next
  case False
  then have "nat (int (length s) - 1) = length s - 1" by simp
  with False show ?thesis
    by (simp add: substring_def Let_def min_def max_def butlast_conv_take)
qed

lemma strip_leading_step:
  "(if charAt s 0 = ''/'' then substring s 1 (int (length s)) else s) = strip_leading s"
  by (simp only: charAt_0 substring_tl strip_leading_def)

lemma strip_trailing_step:
  "(if charAt s (int (length s) - 1) = ''/'' then substring s 0 (int (length s) - 1) else s)
     = strip_trailing s"
  by (simp only: charAt_last substring_butlast strip_trailing_def)

lemma trimURL_strip: "trimURL u = strip_trailing (strip_leading u)"
  by (simp only: trimURL_def Let_def strip_leading_step strip_trailing_step)

lemma Session_trimURL_eq: "Session_trimURL u = trimURL u"
  by (simp only: trimURL_def Session_trimURL_def)

lemma trimURL_fixed:
  "(trimURL s = s) = (\<not> starts_with_slash s \<and> \<not> ends_with_slash s)"
proof (cases "starts_with_slash s")
  case True
  then obtain r where s: "s = CHR ''/'' # r"
    by (cases s) (auto simp: starts_with_slash_def)
  have "length (strip_trailing r) \<le> length r"
    by (simp add: strip_trailing_def)
  then have "strip_trailing r \<noteq> CHR ''/'' # r"
    by auto
  with True s show ?thesis
    by (simp add: trimURL_strip strip_leading_def)
next
  case False
  then have "trimURL s = strip_trailing s"
    by (simp add: trimURL_strip strip_leading_def)
  moreover have "(strip_trailing s = s) = (\<not> ends_with_slash s)"
  proof (cases "ends_with_slash s")
    case True
    then have "s \<noteq> []" by (simp add: ends_with_slash_def)
    then have "length (butlast s) \<noteq> length s" by (cases s) simp_all
    then have "butlast s \<noteq> s" by (rule contrapos_nn) (erule arg_cong)
    with True show ?thesis by (simp add: strip_trailing_def)
  next
    case False
    then show ?thesis by (simp add: strip_trailing_def)
  qed
  ultimately show ?thesis using False by simp
qed

text \<open>
  C5, as stated, fails: \<^verbatim>\<open>trimURL\<close> is not idempotent. Of \<open>//a\<close> it leaves \<open>/a\<close>, and
  of \<open>/a\<close> it leaves \<open>a\<close>.
\<close>

theorem trimURL_idempotent_counterexample:
  "trimURL (trimURL ''//a'') \<noteq> trimURL ''//a''"
  by (simp add: trimURL_strip strip_leading_def strip_trailing_def starts_with_slash_def
      ends_with_slash_def)

lemma trimURL_wrap: "trimURL (''/'' @ u @ ''/'') = u"
  by (simp add: trimURL_strip strip_leading_def strip_trailing_def starts_with_slash_def
      ends_with_slash_def)

text \<open>
  C5, amended: \<^verbatim>\<open>trimURL\<close> removes one leading separator if the url starts with one,
  and then one trailing separator if what is left ends with one, no more and nothing
  else; \<open>/a/b/\<close> and \<open>a/b\<close> both normalise to \<open>a/b\<close>; the method of Session computes
  the same; and a second application changes nothing exactly when the first result
  neither starts nor ends with a separator.
\<close>

theorem trimURL_normal:
  "trimURL u = strip_trailing (strip_leading u)
   \<and> strip_leading u = (if starts_with_slash u then tl u else u)
   \<and> strip_trailing (strip_leading u)
       = (if ends_with_slash (strip_leading u) then butlast (strip_leading u) else strip_leading u)
   \<and> trimURL ''/a/b/'' = ''a/b'' \<and> trimURL ''a/b'' = ''a/b''
   \<and> trimURL (''/'' @ u @ ''/'') = u
   \<and> Session_trimURL u = trimURL u
   \<and> ((trimURL (trimURL u) = trimURL u)
        = (\<not> starts_with_slash (trimURL u) \<and> \<not> ends_with_slash (trimURL u)))"
proof -
  have a: "trimURL ''/a/b/'' = ''a/b''"
    by (simp add: trimURL_strip strip_leading_def strip_trailing_def starts_with_slash_def
        ends_with_slash_def)
  have b: "trimURL ''a/b'' = ''a/b''"
    by (simp add: trimURL_strip strip_leading_def strip_trailing_def starts_with_slash_def
        ends_with_slash_def)
  show ?thesis
    using a b trimURL_wrap [of u] Session_trimURL_eq [of u] trimURL_fixed [of "trimURL u"]
      trimURL_strip [of u]
    by (simp add: strip_leading_def strip_trailing_def)
qed

text \<open>C5, the amended statement on \<open>/x//\<close>, where the second application still strips.\<close>

theorem trimURL_normal_witness:
  "trimURL (''/'' @ ''/x//'' @ ''/'') = ''/x//''
   \<and> starts_with_slash ''/x//'' \<and> strip_leading ''/x//'' = ''x//''
   \<and> trimURL ''/x//'' = ''x/''
   \<and> ends_with_slash (trimURL ''/x//'')
   \<and> trimURL (trimURL ''/x//'') \<noteq> trimURL ''/x//''"
proof -
  have t: "trimURL ''/x//'' = ''x/''"
    by (simp add: trimURL_strip strip_leading_def strip_trailing_def starts_with_slash_def
        ends_with_slash_def)
  have e: "ends_with_slash ''x/''"
    by (simp add: ends_with_slash_def)
  have l: "starts_with_slash ''/x//''"
    by (simp add: starts_with_slash_def)
  note n = trimURL_normal [of "''/x//''"]
  from n have 1: "trimURL (''/'' @ ''/x//'' @ ''/'') = ''/x//''" by blast
  from n l have 2: "strip_leading ''/x//'' = ''x//''" by simp
  from n have "(trimURL (trimURL ''/x//'') = trimURL ''/x//'')
        = (\<not> starts_with_slash (trimURL ''/x//'') \<and> \<not> ends_with_slash (trimURL ''/x//''))"
    by blast
  with t e have 3: "trimURL (trimURL ''/x//'') \<noteq> trimURL ''/x//''" by simp
  show ?thesis using 1 2 3 t e l by simp
qed

subsection \<open>Evaluation\<close>

lemmas toy_defs = toy_def toy_parse_def toy_stringify_def toy_decrypt_def noop_handler_def

lemmas url_defs = Session_trimURL_eq trimURL_strip strip_leading_def strip_trailing_def
  starts_with_slash_def ends_with_slash_def

lemmas request_defs = resolve_client_def resolve_endpoint_def matches_clientID_def
  strict_eq_string_def first_elem_def handler_args_def response_body_def

lemmas module_defs = mdsm_module_def init_def createSession_def addClient_def Session_addClient_def
  encrypt_def decrypt_def setTimeout_expire_def setTimeout_delay_def to_number_def truthy_object_def
  findSession_def findSession_try_def matches_sessionID_def

lemmas fixture_defs = test_init_def test_session_info_def test_client_info_def test_created_def
  test_state_def test_endpoints_def no_ttl_info_def dup_info_def dup_first_def dup_second_def
  dup_added_def


lemma first_elem_filter_holds:
  "first_elem (filter q xs) = Some x \<Longrightarrow> q x \<and> x \<in> set xs"
proof -
  assume "first_elem (filter q xs) = Some x"
  then have "x \<in> set (filter q xs)"
    by (cases "filter q xs") (simp_all add: first_elem_def)
  then show ?thesis by simp
qed

lemma example_client:
  "resolve_client toy example_session ''s1:c1'' = Inr (Some (hd (clientList example_session)))"
  by (simp add: example_session_def request_defs toy_defs)

lemma example_endpoint1:
  "resolve_endpoint example_session (example_request ''/api/doSomething1/'')
     = Some (validEndpoints example_session ! 0)"
  by (simp add: example_session_def example_request_def request_defs url_defs)

lemma example_endpoint2:
  "resolve_endpoint example_session (example_request ''/api/doSomething2/'')
     = Some (validEndpoints example_session ! 1)"
  by (simp add: example_session_def example_request_def request_defs url_defs)

lemma example_class_allowed:
  "clientClass (hd (clientList example_session))
     \<in> set (allowedClassTypes (validEndpoints example_session ! 0))"
  by (simp add: example_session_def)

lemma example_class_refused:
  "clientClass (hd (clientList example_session))
     \<notin> set (allowedClassTypes (validEndpoints example_session ! 1))"
  by (simp add: example_session_def)

lemma test_state_session:
  "fst test_created = 0 \<and> sessions test_state = [0]
   \<and> sessionID (heap test_state ! 0) = ''aa''
   \<and> map clientID (clientList (heap test_state ! 0)) = [''aaa'']
   \<and> expiryDate (heap test_state ! 0) = Num 10000"
  by (simp add: fixture_defs module_defs toy_defs Let_def)

subsection \<open>What a process keeps\<close>

lemma addClient_secret: "secret (snd (addClient P info st)) = secret st"
  by (simp add: addClient_def Let_def split: option.splits prod.splits)

lemma createSession_secret: "secret (snd (createSession P info st)) = secret st"
  by (simp add: createSession_def Let_def setTimeout_expire_def split: option.splits)

lemma step_secret: "secret (step P c st) = secret st"
proof (cases c)
  case (Call_init x)
  then show ?thesis by (simp add: init_def Let_def)
next
  case (Call_createSession x)
  then show ?thesis by (simp add: createSession_secret)
next
  case (Call_addClient x)
  then show ?thesis by (simp add: addClient_secret)
next
  case (Call_renewSession sid ms)
  then show ?thesis
    by (cases "renewSession sid ms st")
       (auto simp: renewSession_def Let_def split: option.splits)
next
  case (Method_addClient r cClass cData)
  then show ?thesis by simp
next
  case (Method_removeClient r cid)
  then show ?thesis by (simp split: sum.splits)
next
  case (Method_extendSessionLife r ms)
  then show ?thesis by simp
next
  case (Timer_fires i)
  then show ?thesis
    by (simp add: fire_timer_def expireSession_def setTimeout_expire_def Let_def)
next
  case (Time_passes ms)
  then show ?thesis by (simp add: tick_def)
qed

lemma run_secret: "secret (run P cs st) = secret st"
  by (induction cs arbitrary: st) (simp_all add: step_secret)

lemma createSession_shape:
  "fst (createSession P info st) = length (heap st)
   \<and> sessions (snd (createSession P info st)) = sessions st @ [length (heap st)]
   \<and> butlast (heap (snd (createSession P info st))) = heap st
   \<and> length (heap (snd (createSession P info st))) = Suc (length (heap st))"
  by (simp add: createSession_def Let_def setTimeout_expire_def split: option.splits)











subsection \<open>The cookie finds its session\<close>





text \<open>
  A session created under an identifier that no live session carries is the first of the
  array with its identifier, so the amended statement applies to it.
\<close>

lemma createSession_first:
  assumes wf: "list_all (\<lambda>r. r < length (heap st)) (sessions st)"
    and fresh: "filter (\<lambda>r. sessionID (heap st ! r)
                    = sessionID (heap (snd (createSession P info st)) ! fst (createSession P info st)))
                  (sessions st) = []"
  shows "first_elem (filter (\<lambda>r. sessionID (heap (snd (createSession P info st)) ! r)
                                = sessionID (heap (snd (createSession P info st)) ! fst (createSession P info st)))
                       (sessions (snd (createSession P info st))))
         = Some (fst (createSession P info st))
       \<and> fst (createSession P info st) < length (heap (snd (createSession P info st)))"
proof -
  let ?st' = "snd (createSession P info st)"
  let ?s = "fst (createSession P info st)"
  note sh = createSession_shape [of P info st]
  have old: "r \<in> set (sessions st) \<Longrightarrow> heap ?st' ! r = heap st ! r" for r
  proof -
    assume "r \<in> set (sessions st)"
    with wf have "r < length (heap st)" by (simp add: list_all_iff)
    moreover from sh have "heap st = butlast (heap ?st')" by simp
    ultimately show ?thesis by (simp add: nth_butlast)
  qed
  have "filter (\<lambda>r. sessionID (heap ?st' ! r) = sessionID (heap ?st' ! ?s)) (sessions st)
        = filter (\<lambda>r. sessionID (heap st ! r) = sessionID (heap ?st' ! ?s)) (sessions st)"
    by (rule filter_cong) (simp_all add: old)
  with fresh have "filter (\<lambda>r. sessionID (heap ?st' ! r) = sessionID (heap ?st' ! ?s)) (sessions st) = []"
    by simp
  moreover have "sessions ?st' = sessions st @ [?s]" using sh by simp
  ultimately show ?thesis using sh by (simp add: first_elem_def)
qed

subsection \<open>Authorisation\<close>

text \<open>
  C2: whenever \<^verbatim>\<open>Session.processRequest\<close> resolves a client and an endpoint and the class
  of the client is not among the \<^verbatim>\<open>allowedClassTypes\<close> of the endpoint, no handler is
  invoked, whatever the session, the request, the response and the cookie text are.
\<close>

theorem unauthorised_no_handler:
  assumes "resolve_client P this k = Inr (Some c)"
    and "resolve_endpoint this req = Some ep"
    and "clientClass c \<notin> set (allowedClassTypes ep)"
  shows "\<not> list_ex is_handler_invocation (fst (Session_processRequest P this req res k))"
  using assms by (simp add: Session_processRequest_def)

text \<open>
  C2 on the client of class \<open>class_A\<close> asking for the endpoint that allows \<open>class_B\<close> only.
\<close>

theorem unauthorised_no_handler_witness:
  "resolve_client toy example_session ''s1:c1'' = Inr (Some (hd (clientList example_session)))
   \<and> resolve_endpoint example_session (example_request ''/api/doSomething2/'')
       = Some (validEndpoints example_session ! 1)
   \<and> clientClass (hd (clientList example_session))
       \<notin> set (allowedClassTypes (validEndpoints example_session ! 1))
   \<and> \<not> list_ex is_handler_invocation
        (fst (Session_processRequest toy example_session (example_request ''/api/doSomething2/'')
                new_response ''s1:c1''))"
  using unauthorised_no_handler [OF example_client example_endpoint2 example_class_refused]
    example_client example_endpoint2 example_class_refused
  by simp

text \<open>A handler runs only for a resolved client whose class its endpoint allows.\<close>

lemma handler_only_if_allowed:
  assumes "list_ex is_handler_invocation (fst (Session_processRequest P this req res k))"
  shows "\<exists>c ep. resolve_client P this k = Inr (Some c) \<and> resolve_endpoint this req = Some ep
           \<and> clientClass c \<in> set (allowedClassTypes ep)"
  using assms
  by (auto simp: Session_processRequest_def Let_def
      split: sum.splits option.splits if_splits prod.splits)

subsection \<open>The response\<close>

lemma throwing_client:
  "resolve_client toy throwing_session ''s1:c1'' = Inr (Some (hd (clientList throwing_session)))"
  by (simp add: throwing_session_def example_session_def request_defs toy_defs)

lemma throwing_endpoint1:
  "resolve_endpoint throwing_session (example_request ''/api/doSomething1/'')
     = Some (validEndpoints throwing_session ! 0)"
  by (simp add: throwing_session_def example_session_def example_request_def request_defs url_defs)

lemma throwing_endpoint2:
  "resolve_endpoint throwing_session (example_request ''/api/doSomething2/'')
     = Some (validEndpoints throwing_session ! 1)"
  by (simp add: throwing_session_def example_session_def example_request_def request_defs url_defs)

lemma throwing_class_allowed:
  "clientClass (hd (clientList throwing_session))
     \<in> set (allowedClassTypes (validEndpoints throwing_session ! 0))
   \<and> clientClass (hd (clientList throwing_session))
     \<in> set (allowedClassTypes (validEndpoints throwing_session ! 1))"
  by (simp add: throwing_session_def example_session_def)

text \<open>
  C10, as stated, fails: the response is not ended on every invocation that resolves a
  client and an endpoint. The call of the handler is not guarded; when the handler of
  an allowed request throws, the exception leaves \<^verbatim>\<open>processRequest\<close> and
  \<^verbatim>\<open>res.end\<close> is never reached. Here the client and the endpoint resolve, the class is
  allowed, the only call made is the one of the handler, and the response is as it was
  handed over, not ended.
\<close>

theorem response_not_ended_counterexample:
  "resolve_client toy throwing_session ''s1:c1'' = Inr (Some (hd (clientList throwing_session)))
   \<and> resolve_endpoint throwing_session (example_request ''/api/doSomething1/'')
       = Some (validEndpoints throwing_session ! 0)
   \<and> Session_processRequest toy throwing_session (example_request ''/api/doSomething1/'')
        new_response ''s1:c1''
       = ([Handler_invoked (validEndpoints throwing_session ! 0)
             (handler_args throwing_session (hd (clientList throwing_session))
                (example_request ''/api/doSomething1/'') new_response ''s1:c1'')],
          new_response, Some TypeError)
   \<and> \<not> res_finished new_response"
  by (simp add: Session_processRequest_def throwing_client throwing_endpoint1 throwing_class_allowed
      Let_def)
     (simp add: throwing_session_def throwing_handler_def handler_args_def new_response_def)

text \<open>
  C10, amended: let \<^verbatim>\<open>Session.processRequest\<close> have resolved a client and an endpoint.
  When the class of the client is not allowed, its only call is \<^verbatim>\<open>res.end\<close> with the
  text that contains the session identifier and the decrypted cookie, and it returns
  without an error. When the class is allowed, the handler is called first, with the
  response among its arguments; if the handler returns, \<^verbatim>\<open>res.end\<close> is called with the
  same text on the response as the handler left it; if the handler throws, the exception
  leaves the method and \<^verbatim>\<open>res.end\<close> is not called. On a response that is not ended
  yet, \<^verbatim>\<open>res.end\<close> appends the text and ends the response; a response that the handler
  has ended stays as the handler left it.
\<close>

theorem response_ended_unless_handler_throws:
  assumes "resolve_client P this k = Inr (Some c)"
    and "resolve_endpoint this req = Some ep"
    and "body = ''Your session is '' @ sessionID this @ ''. Your MDSM cookie is '' @ k"
  shows "(clientClass c \<notin> set (allowedClassTypes ep) \<longrightarrow>
            Session_processRequest P this req res k = ([Res_end body], res_end body res, None))
       \<and> (clientClass c \<in> set (allowedClassTypes ep)
            \<and> handler ep (handler_args this c req res k) = (res', None) \<longrightarrow>
            Session_processRequest P this req res k
              = ([Handler_invoked ep (handler_args this c req res k), Res_end body],
                 res_end body res', None))
       \<and> (clientClass c \<in> set (allowedClassTypes ep)
            \<and> handler ep (handler_args this c req res k) = (res', Some e) \<longrightarrow>
            Session_processRequest P this req res k
              = ([Handler_invoked ep (handler_args this c req res k)], res', Some e))
       \<and> (\<not> res_finished r \<longrightarrow>
            res_end body r = r\<lparr>res_body := res_body r @ body, res_finished := True\<rparr>)
       \<and> (res_finished r \<longrightarrow> res_end body r = r)"
  using assms
  by (simp add: Session_processRequest_def response_body_def res_end_def Let_def)

text \<open>
  C10, the amended statement on the client of class \<open>class_A\<close>: refused at the second
  endpoint of test.js and served at the first, both on a fresh response; and with a
  handler that throws, and a handler that ends the response itself.
\<close>

theorem response_ended_unless_handler_throws_witness:
  "Session_processRequest toy example_session (example_request ''/api/doSomething2/'')
     new_response ''s1:c1''
     = ([Res_end ''Your session is s1. Your MDSM cookie is s1:c1''],
        \<lparr>res_statusCode = 200, res_body = ''Your session is s1. Your MDSM cookie is s1:c1'',
         res_finished = True\<rparr>, None)
   \<and> Session_processRequest toy example_session (example_request ''/api/doSomething1/'')
       new_response ''s1:c1''
     = ([Handler_invoked (validEndpoints example_session ! 0)
           (handler_args example_session (hd (clientList example_session))
              (example_request ''/api/doSomething1/'') new_response ''s1:c1''),
         Res_end ''Your session is s1. Your MDSM cookie is s1:c1''],
        \<lparr>res_statusCode = 200, res_body = ''Your session is s1. Your MDSM cookie is s1:c1'',
         res_finished = True\<rparr>, None)
   \<and> snd (Session_processRequest toy throwing_session (example_request ''/api/doSomething1/'')
            new_response ''s1:c1'')
     = (new_response, Some TypeError)
   \<and> snd (Session_processRequest toy throwing_session (example_request ''/api/doSomething2/'')
            new_response ''s1:c1'')
     = (\<lparr>res_statusCode = 200, res_body = ''done'', res_finished = True\<rparr>, None)"
proof -
  let ?b = "''Your session is s1. Your MDSM cookie is s1:c1''"
  let ?done = "\<lparr>res_statusCode = 200, res_body = ''done'', res_finished = True\<rparr>"
  have i: "?b = ''Your session is '' @ sessionID example_session @ ''. Your MDSM cookie is '' @ ''s1:c1''"
    by (simp add: example_session_def)
  have j: "?b = ''Your session is '' @ sessionID throwing_session @ ''. Your MDSM cookie is '' @ ''s1:c1''"
    by (simp add: throwing_session_def example_session_def)
  have h1: "handler (validEndpoints example_session ! 0)
              (handler_args example_session (hd (clientList example_session))
                 (example_request ''/api/doSomething1/'') new_response ''s1:c1'')
            = (new_response, None)"
    by (simp add: example_session_def noop_handler_def handler_args_def)
  have h2: "handler (validEndpoints throwing_session ! 0)
              (handler_args throwing_session (hd (clientList throwing_session))
                 (example_request ''/api/doSomething1/'') new_response ''s1:c1'')
            = (new_response, Some TypeError)"
    by (simp add: throwing_session_def throwing_handler_def handler_args_def)
  have h3: "handler (validEndpoints throwing_session ! 1)
              (handler_args throwing_session (hd (clientList throwing_session))
                 (example_request ''/api/doSomething2/'') new_response ''s1:c1'')
            = (?done, None)"
    by (simp add: throwing_session_def replying_handler_def handler_args_def res_end_def
        new_response_def)
  have n: "\<not> res_finished new_response" and f: "res_finished ?done"
    by (simp_all add: new_response_def)
  have e: "new_response\<lparr>res_body := res_body new_response @ ?b, res_finished := True\<rparr>
           = \<lparr>res_statusCode = 200, res_body = ?b, res_finished = True\<rparr>"
    by (simp add: new_response_def)
  note refused = response_ended_unless_handler_throws [OF example_client example_endpoint2 i,
      where res = new_response and r = new_response]
  note served = response_ended_unless_handler_throws [OF example_client example_endpoint1 i,
      where res = new_response and res' = new_response and r = new_response]
  note thrown = response_ended_unless_handler_throws [OF throwing_client throwing_endpoint1 j,
      where res = new_response and res' = new_response and e = TypeError]
  note replied = response_ended_unless_handler_throws [OF throwing_client throwing_endpoint2 j,
      where res = new_response and res' = ?done and r = ?done]
  have 1: "Session_processRequest toy example_session (example_request ''/api/doSomething2/'')
             new_response ''s1:c1''
           = ([Res_end ?b], \<lparr>res_statusCode = 200, res_body = ?b, res_finished = True\<rparr>, None)"
    using refused example_class_refused n e by simp
  have 2: "Session_processRequest toy example_session (example_request ''/api/doSomething1/'')
             new_response ''s1:c1''
           = ([Handler_invoked (validEndpoints example_session ! 0)
                 (handler_args example_session (hd (clientList example_session))
                    (example_request ''/api/doSomething1/'') new_response ''s1:c1''),
               Res_end ?b],
              \<lparr>res_statusCode = 200, res_body = ?b, res_finished = True\<rparr>, None)"
    using served example_class_allowed h1 n e by simp
  have 3: "snd (Session_processRequest toy throwing_session (example_request ''/api/doSomething1/'')
                  new_response ''s1:c1'')
           = (new_response, Some TypeError)"
    using thrown throwing_class_allowed h2 by simp
  have 4: "snd (Session_processRequest toy throwing_session (example_request ''/api/doSomething2/'')
                  new_response ''s1:c1'')
           = (?done, None)"
    using replied throwing_class_allowed h3 f by simp
  show ?thesis using 1 2 3 4 by simp
qed

subsection \<open>A cookie of an unknown client\<close>

text \<open>
  C9: a cookie whose \<^verbatim>\<open>clientID\<close> matches no client of the session should be reported
  as an unknown client, without a crash. The code does not test the client it looked up:
  \<^verbatim>\<open>client\<close> is \<^verbatim>\<open>undefined\<close>, reading \<^verbatim>\<open>client.clientClass\<close> throws a TypeError out of
  \<^verbatim>\<open>processRequest\<close>, the response is left untouched and \<^verbatim>\<open>next\<close> is not called. No
  handler is invoked.
\<close>

theorem unknown_client_throws:
  assumes "resolve_client P this k = Inr None"
  shows "Session_processRequest P this req res k = ([], res, Some TypeError)"
  using assms by (simp add: Session_processRequest_def split: option.splits)

text \<open>C9 on the cookie \<open>{sessionID: s1, clientID: gone}\<close> and a session whose one client is \<open>c1\<close>.\<close>

theorem unknown_client_throws_witness:
  "resolve_client toy example_session ''s1:gone'' = Inr None
   \<and> Session_processRequest toy example_session (example_request ''/api/doSomething1/'')
        new_response ''s1:gone''
       = ([], new_response, Some TypeError)"
proof -
  have r: "resolve_client toy example_session ''s1:gone'' = Inr None"
    by (simp add: example_session_def request_defs toy_defs)
  show ?thesis using unknown_client_throws [OF r] r by simp
qed

subsection \<open>Removing a client\<close>

text \<open>
  C8: \<^verbatim>\<open>removeClient\<close> should delete the client with the given identifier. When the
  session has such a client, the code reads the undeclared variable \<^verbatim>\<open>clientList\<close> and
  throws a ReferenceError; the client stays in the list of the session.
\<close>

theorem removeClient_present_throws:
  assumes "cid \<in> set (map clientID (clientList this))"
  shows "Session_removeClient this cid = Inl ReferenceError"
proof -
  from assms have "filter (\<lambda>c. clientID c = cid) (clientList this) \<noteq> []"
    by (auto simp: filter_empty_conv)
  then show ?thesis by (simp add: Session_removeClient_def)
qed

text \<open>C8 on the session whose one client is \<open>c1\<close>.\<close>

theorem removeClient_present_throws_witness:
  "''c1'' \<in> set (map clientID (clientList example_session))
   \<and> Session_removeClient example_session ''c1'' = Inl ReferenceError"
proof -
  have m: "''c1'' \<in> set (map clientID (clientList example_session))"
    by (simp add: example_session_def)
  show ?thesis using removeClient_present_throws [OF m] m by simp
qed

text \<open>Without such a client the method returns and the session is as it was.\<close>

lemma removeClient_absent_noop:
  assumes "cid \<notin> set (map clientID (clientList this))"
  shows "Session_removeClient this cid = Inr this"
proof -
  from assms have "filter (\<lambda>c. clientID c = cid) (clientList this) = []"
    by (auto simp: filter_empty_conv)
  then show ?thesis by (simp add: Session_removeClient_def)
qed

subsection \<open>Renewal\<close>

text \<open>
  C7: \<^verbatim>\<open>renewSession\<close> with an identifier that no live session carries should report that
  the session was not found. The code calls \<^verbatim>\<open>extendSessionLife\<close> on \<^verbatim>\<open>undefined\<close>: a
  TypeError is thrown out of \<^verbatim>\<open>renewSession\<close>.
\<close>

theorem renewSession_absent_throws:
  assumes "filter (\<lambda>s. sessionID (heap st ! s) = sid) (sessions st) = []"
  shows "renewSession sid extraMs st = Inl TypeError"
  using assms by (simp add: renewSession_def first_elem_def)

text \<open>C7 on the module without any session.\<close>

theorem renewSession_absent_throws_witness:
  "filter (\<lambda>s. sessionID (heap (mdsm_module toy 0) ! s) = ''nobody'') (sessions (mdsm_module toy 0)) = []
   \<and> renewSession ''nobody'' 1000 (mdsm_module toy 0) = Inl TypeError"
proof -
  have e: "filter (\<lambda>s. sessionID (heap (mdsm_module toy 0) ! s) = ''nobody'')
             (sessions (mdsm_module toy 0)) = []"
    by (simp add: mdsm_module_def)
  show ?thesis using renewSession_absent_throws [OF e] e by simp
qed

text \<open>
  The other half of the statement holds: the first live session with the identifier has
  its expiry date moved by the given number of milliseconds.
\<close>

lemma renewSession_live:
  assumes "first_elem (filter (\<lambda>r. sessionID (heap st ! r) = sid) (sessions st)) = Some s"
    and "s < length (heap st)"
    and "expiryDate (heap st ! s) = Num e"
  shows "\<exists>st'. renewSession sid extraMs st = Inr st'
          \<and> expiryDate (heap st' ! s) = Num (e + extraMs)
          \<and> sessions st' = sessions st"
  using assms by (simp add: renewSession_def Session_extendSessionLife_def)

subsection \<open>The default time to live\<close>

text \<open>
  C6: without \<^verbatim>\<open>timeToLive\<close> the session should expire at its creation time. The test
  that is to set the default reads \<^verbatim>\<open>!(newSessionInfo)\<close>, which is false for every
  object, so \<^verbatim>\<open>timeToLive\<close> stays \<^verbatim>\<open>undefined\<close> and the expiry date is
  \<^verbatim>\<open>Date.now() + undefined\<close>, that is \<^verbatim>\<open>NaN\<close>.
\<close>

theorem createSession_no_ttl_NaN:
  assumes "new_timeToLive info = None"
  shows "expiryDate (heap (snd (createSession P info st)) ! fst (createSession P info st)) = NaN"
  using assms
  by (simp add: createSession_def Let_def truthy_object_def to_number_def setTimeout_expire_def
      split: option.splits prod.splits)

text \<open>C6 on a configuration object that gives an identifier and nothing else.\<close>

theorem createSession_no_ttl_NaN_witness:
  "new_timeToLive no_ttl_info = None
   \<and> expiryDate (heap (snd (createSession toy no_ttl_info test_init))
                   ! fst (createSession toy no_ttl_info test_init)) = NaN
   \<and> NaN \<noteq> Num (now test_init)"
proof -
  have n: "new_timeToLive no_ttl_info = None" by (simp add: no_ttl_info_def)
  show ?thesis using createSession_no_ttl_NaN [OF n] n by simp
qed

text \<open>
  Such a session is never destroyed: \<^verbatim>\<open>NaN <= 0\<close> is false, so every expiry check
  finds it alive and sets the next timer.
\<close>

lemma NaN_never_destroyed:
  "expiryDate this = NaN \<Longrightarrow> \<not> Session_attemptSelfDestruct this t"
  by (simp add: Session_attemptSelfDestruct_def)

subsection \<open>\<^verbatim>\<open>findSession\<close> does not throw\<close>

text \<open>
  C3: for every cookie text \<^verbatim>\<open>findSession\<close> returns to its caller, and it returns
  \<^verbatim>\<open>null\<close> when the text cannot be decrypted, when the decrypted text cannot be parsed,
  when the comparison of identifiers throws, and when no session matches.
\<close>

theorem findSession_never_raises:
  "(\<exists>r. findSession P st cookie = Inr r)
   \<and> (decrypt P st cookie = Inl e \<longrightarrow> findSession P st cookie = Inr None)
   \<and> (decrypt P st cookie = Inr u \<and> JSON_parse P u = Inl e \<longrightarrow> findSession P st cookie = Inr None)
   \<and> (decrypt P st cookie = Inr u \<and> JSON_parse P u = Inr v
        \<and> filterE (matches_sessionID st v) (sessions st) = Inl e \<longrightarrow> findSession P st cookie = Inr None)
   \<and> (decrypt P st cookie = Inr u \<and> JSON_parse P u = Inr v
        \<and> filterE (matches_sessionID st v) (sessions st) = Inr [] \<longrightarrow> findSession P st cookie = Inr None)"
  by (simp add: findSession_def findSession_try_def split: sum.splits list.splits)

text \<open>
  C3 on the state of test.js: a text that is not a ciphertext of this process, a
  ciphertext of a text that is not JSON, a ciphertext of \<open>null\<close>, and a ciphertext
  that names a session that does not exist.
\<close>

theorem findSession_never_raises_witness:
  "decrypt toy test_state ''garbage'' = Inl DecipherError
   \<and> findSession toy test_state ''garbage'' = Inr None
   \<and> decrypt toy test_state ''axyz'' = Inr ''xyz'' \<and> JSON_parse toy ''xyz'' = Inl SyntaxError
   \<and> findSession toy test_state ''axyz'' = Inr None
   \<and> decrypt toy test_state ''anull'' = Inr ''null'' \<and> JSON_parse toy ''null'' = Inr JNull
   \<and> filterE (matches_sessionID test_state JNull) (sessions test_state) = Inl TypeError
   \<and> findSession toy test_state ''anull'' = Inr None
   \<and> decrypt toy test_state ''azz:c'' = Inr ''zz:c''
   \<and> filterE (matches_sessionID test_state
                 (JObject [(''sessionID'', JString ''zz''), (''clientID'', JString ''c'')]))
        (sessions test_state) = Inr []
   \<and> findSession toy test_state ''azz:c'' = Inr None"
proof -
  have sec: "secret test_state = ''a''"
    by (simp add: fixture_defs module_defs toy_defs Let_def)
  have ss: "sessions test_state = [0]" and sid: "sessionID (heap test_state ! 0) = ''aa''"
    using test_state_session by simp_all
  have d1: "decrypt toy test_state ''garbage'' = Inl DecipherError"
    by (simp add: decrypt_def sec toy_defs)
  have d2: "decrypt toy test_state ''axyz'' = Inr ''xyz''"
    by (simp add: decrypt_def sec toy_defs)
  have p2: "JSON_parse toy ''xyz'' = Inl SyntaxError"
    by (simp add: toy_defs)
  have d3: "decrypt toy test_state ''anull'' = Inr ''null''"
    by (simp add: decrypt_def sec toy_defs)
  have p3: "JSON_parse toy ''null'' = Inr JNull"
    by (simp add: toy_defs)
  have f3: "filterE (matches_sessionID test_state JNull) (sessions test_state) = Inl TypeError"
    by (simp add: ss matches_sessionID_def)
  have d4: "decrypt toy test_state ''azz:c'' = Inr ''zz:c''"
    by (simp add: decrypt_def sec toy_defs)
  have p4: "JSON_parse toy ''zz:c''
            = Inr (JObject [(''sessionID'', JString ''zz''), (''clientID'', JString ''c'')])"
    by (simp add: toy_defs)
  have f4: "filterE (matches_sessionID test_state
                       (JObject [(''sessionID'', JString ''zz''), (''clientID'', JString ''c'')]))
              (sessions test_state) = Inr []"
    by (simp add: ss sid matches_sessionID_def strict_eq_string_def)
  show ?thesis
    using findSession_never_raises [where P = toy and st = test_state and cookie = "''garbage''"
        and e = DecipherError]
      findSession_never_raises [where P = toy and st = test_state and cookie = "''axyz''"
        and e = SyntaxError and u = "''xyz''"]
      findSession_never_raises [where P = toy and st = test_state and cookie = "''anull''"
        and e = TypeError and u = "''null''" and v = JNull]
      findSession_never_raises [where P = toy and st = test_state and cookie = "''azz:c''"
        and u = "''zz:c''"
        and v = "JObject [(''sessionID'', JString ''zz''), (''clientID'', JString ''c'')]"]
      d1 d2 p2 d3 p3 f3 d4 p4 f4
    by simp
qed

subsection \<open>The cipher\<close>

text \<open>
  C4, as stated, fails: \<^verbatim>\<open>encrypt\<close> draws nothing at random. There are no two states
  of the module with the same secret, and no plaintext, for which two calls of
  \<^verbatim>\<open>encrypt\<close> differ.
\<close>

theorem encrypt_randomized_counterexample:
  "\<not> (\<exists>P st1 st2 plaintext.
         secret st1 = secret st2 \<and> encrypt P st1 plaintext \<noteq> encrypt P st2 plaintext)"
  by (simp add: encrypt_def)

text \<open>
  C4, amended: \<^verbatim>\<open>encrypt\<close> is a function of the plaintext and the secret of the process.
  Whatever the process does between two calls (initialisation, sessions and clients
  created, sessions renewed, timers, time), the second call returns the ciphertext of
  the first.
\<close>

theorem encrypt_deterministic:
  "encrypt P (run P calls st) plaintext = encrypt P st plaintext"
  by (simp add: encrypt_def run_secret)


end
